theory Spec2Isabelle
  imports Complex_Main
begin

section \<open>Preliminaries\<close>

text \<open>
  The development embeds the decision and learning code of two agents:
  \<^item> \<open>BaseAgent\<close> of \<open>src/BaseAgent.py\<close> (three heads: action, x, y);
  \<^item> \<open>CompassAgent\<close> of \<open>src/nico/assets/agents/BaseAgent.py\<close> (one head, reward shaping).

  Python floats are idealised as \<open>real\<close>: rounding of float arithmetic is not modelled.
  Every draw from \<open>np.random\<close> is an explicit argument of the function that makes it.
  A Python exception is the \<open>Inl\<close> branch of a sum, Python's \<open>None\<close> the \<open>None\<close> of an option.
\<close>

datatype py_error = ZeroDivisionError | ValueError | IndexError | RuntimeError | NameError

subsection \<open>The pysc2 action vocabulary\<close>

text \<open>
  \<open>actions.FUNCTIONS.<name>.id\<close> are constants of pysc2 (not part of the sources); the
  numbers are pysc2's. Only their being pairwise distinct matters below.
\<close>

type_synonym function_id = nat

definition no_op_id :: function_id where
  "no_op_id = 0"

definition select_army_id :: function_id where
  "select_army_id = 7"

definition Move_screen_id :: function_id where
  "Move_screen_id = 331"

text \<open>A \<open>FunctionCall\<close> as the agents build it; \<open>'c\<close> is the type of a screen coordinate.\<close>

datatype 'c function_call =
    No_op
  | Select_army string
  | Move_screen string 'c 'c

fun function_of :: "'c function_call \<Rightarrow> function_id" where
  "function_of No_op = no_op_id"
| "function_of (Select_army _) = select_army_id"
| "function_of (Move_screen _ _ _) = Move_screen_id"

text \<open>\<open>SMART_ACTIONS\<close> of \<open>src/BaseAgent.py\<close>, lines 26-29.\<close>

definition SMART_ACTIONS :: "function_id list" where
  "SMART_ACTIONS = [no_op_id, select_army_id, Move_screen_id]"

section \<open>BaseAgent: availability of actions\<close>

text \<open>\<open>can_do(obs, action)\<close>: \<open>action in obs.observation.available_actions\<close>.\<close>

definition can_do :: "function_id list \<Rightarrow> function_id \<Rightarrow> bool" where
  "can_do available_actions action \<longleftrightarrow> action \<in> set available_actions"

text \<open>
  \<open>get_action(obs, action, x, y)\<close>. The three inner tests fall through to the end of the
  function when none matches, which returns Python's \<open>None\<close>.
\<close>

definition get_action :: "function_id list \<Rightarrow> function_id \<Rightarrow> nat \<Rightarrow> nat \<Rightarrow> nat function_call option" where
  "get_action available_actions action x y =
     (if can_do available_actions action then
        (if action = Move_screen_id then Some (Move_screen ''now'' x y)
         else if action = select_army_id then Some (Select_army ''select'')
         else if action = no_op_id then Some No_op
         else None)
      else Some No_op)"

section \<open>CompassAgent: translation of compass actions\<close>

text \<open>
  \<open>translate_to_PYSC2_action(action)\<close> reads \<open>self.available_actions\<close> and
  \<open>self.marine_center\<close>. The tests \<open>action is 'left'\<close> compare with string literals and are
  modelled as equality of strings. Each outer test that matches either returns or falls
  through to the next one; when none returns, the function ends and yields \<open>None\<close>.
\<close>

definition translate_to_PYSC2_action ::
    "function_id list \<Rightarrow> real \<times> real \<Rightarrow> string \<Rightarrow> real function_call option" where
  "translate_to_PYSC2_action available_actions marine_center action =
     (if can_do available_actions Move_screen_id then
        (if action = ''left'' \<and> \<not> (fst marine_center \<le> 0)
           then Some (Move_screen ''now'' (fst marine_center + (-4)) (snd marine_center + 0))
         else if action = ''up'' \<and> \<not> (snd marine_center \<le> 0)
           then Some (Move_screen ''now'' (fst marine_center + 0) (snd marine_center + (-4)))
         else if action = ''right'' \<and> \<not> (fst marine_center \<ge> 83)
           then Some (Move_screen ''now'' (fst marine_center + 4) (snd marine_center + 0))
         else if action = ''down'' \<and> \<not> (snd marine_center \<ge> 63)
           then Some (Move_screen ''now'' (fst marine_center + 0) (snd marine_center + 4))
         else None)
      else Some No_op)"

text \<open>The situations in which the commanded direction would leave the screen.\<close>

definition crosses_boundary :: "real \<times> real \<Rightarrow> string \<Rightarrow> bool" where
  "crosses_boundary marine_center action \<longleftrightarrow>
     (action = ''left'' \<and> fst marine_center \<le> 0) \<or>
     (action = ''up'' \<and> snd marine_center \<le> 0) \<or>
     (action = ''right'' \<and> fst marine_center \<ge> 83) \<or>
     (action = ''down'' \<and> snd marine_center \<ge> 63)"

section \<open>numpy and torch primitives\<close>

text \<open>
  \<open>np.random.choice(['random', 'greedy'], p=[eps, 1 - eps])\<close>: numpy refuses negative
  probabilities with a \<open>ValueError\<close> and otherwise compares one uniform sample \<open>u\<close> of
  \<open>[0, 1)\<close> with the cumulative weights, so the first entry is drawn exactly when \<open>u < eps\<close>.
\<close>

definition np_random_choice :: "real \<Rightarrow> real \<Rightarrow> py_error + string" where
  "np_random_choice u eps =
     (if eps < 0 \<or> 1 - eps < 0 then Inl ValueError
      else Inr (if u < eps then ''random'' else ''greedy''))"

text \<open>
  \<open>np.random.randint(high)\<close>: a \<open>ValueError\<close> unless \<open>0 < high\<close>, else some value of
  \<open>[0, high)\<close>; the argument \<open>r\<close> selects which one.
\<close>

definition np_random_randint :: "int \<Rightarrow> nat \<Rightarrow> py_error + nat" where
  "np_random_randint high r = (if high \<le> 0 then Inl ValueError else Inr (r mod nat high))"

text \<open>
  \<open>np.argmax\<close> over the flattened values: the index of the first occurrence of the maximum,
  a \<open>ValueError\<close> on an empty array. \<open>argmax_from best best_i i xs\<close> scans \<open>xs\<close>, whose first
  element has index \<open>i\<close>, and replaces the running best only by a strictly greater value.
\<close>

fun argmax_from :: "real \<Rightarrow> nat \<Rightarrow> nat \<Rightarrow> real list \<Rightarrow> nat" where
  "argmax_from best best_i i [] = best_i"
| "argmax_from best best_i i (x # xs) =
     (if best < x then argmax_from x i (Suc i) xs else argmax_from best best_i (Suc i) xs)"

definition np_argmax :: "real list \<Rightarrow> py_error + nat" where
  "np_argmax xs = (case xs of [] \<Rightarrow> Inl ValueError | x # rest \<Rightarrow> Inr (argmax_from x 0 1 rest))"

text \<open>Running a list of fallible computations, stopping at the first exception.\<close>

fun sequence_err :: "(py_error + 'a) list \<Rightarrow> py_error + 'a list" where
  "sequence_err [] = Inr []"
| "sequence_err (r # rs) =
     (case r of
        Inl e \<Rightarrow> Inl e
      | Inr v \<Rightarrow> (case sequence_err rs of Inl e \<Rightarrow> Inl e | Inr vs \<Rightarrow> Inr (v # vs)))"

text \<open>
  \<open>values.gather(1, index)\<close> with an index of shape \<open>[B, 1]\<close>: row \<open>i\<close> yields its entry at
  \<open>index[i]\<close>; torch raises when an index is out of range.
\<close>

definition gather_row :: "real list \<Rightarrow> nat \<Rightarrow> py_error + real" where
  "gather_row row i = (if i < length row then Inr (row ! i) else Inl RuntimeError)"

definition gather :: "real list list \<Rightarrow> nat list \<Rightarrow> py_error + real list" where
  "gather rows index = sequence_err (map2 gather_row rows index)"

text \<open>\<open>values.max(1)[0]\<close>: the maximum of every row; torch raises on a row without entries.\<close>

definition max_row :: "real list \<Rightarrow> py_error + real" where
  "max_row row = (case row of [] \<Rightarrow> Inl RuntimeError | x # rest \<Rightarrow> Inr (foldl max x rest))"

definition max_dim1 :: "real list list \<Rightarrow> py_error + real list" where
  "max_dim1 rows = sequence_err (map max_row rows)"

text \<open>\<open>np.where(step_type_batch == v)\<close>: the indices at which the batch holds \<open>v\<close>, ascending.\<close>

definition np_where_eq :: "int list \<Rightarrow> int \<Rightarrow> nat list" where
  "np_where_eq xs v = filter (\<lambda>i. xs ! i = v) [0..<length xs]"

text \<open>\<open>target[index] = vals\<close>: the assignment through an index array, entry by entry.\<close>

definition index_put :: "real list \<Rightarrow> nat list \<Rightarrow> real list \<Rightarrow> real list" where
  "index_put target index vals = fold (\<lambda>(i, v) t. t[i := v]) (zip index vals) target"

text \<open>
  \<open>F.mse_loss(input, target)\<close> on two tensors of shape \<open>[n, 1]\<close>: the mean of the squared
  differences of all entries.
\<close>

definition mse_loss :: "real list \<Rightarrow> real list \<Rightarrow> py_error + real" where
  "mse_loss inp target =
     (if length inp \<noteq> length target then Inl RuntimeError
      else Inr (sum_list (map2 (\<lambda>q t. (q - t)\<^sup>2) inp target) / real (length inp)))"

section \<open>Agent state\<close>

type_synonym screen = "int list list"

type_synonym addr = nat

text \<open>
  The observation of a timestep, as far as the agents read it:
  \<open>obs.observation.available_actions\<close>, \<open>feature_screen.player_relative\<close> and
  \<open>feature_screen.selected\<close>.
\<close>

record observation =
  available_actions :: "function_id list"
  player_relative :: screen
  selected :: screen

text \<open>
  The fields the two agents share: the exploration schedule, and the counters \<open>timesteps\<close>
  (the agent's own) and \<open>steps\<close> (of the pysc2 base class, which its \<open>step\<close> increments).
\<close>

record agent_core =
  epsilon :: real
  eps_start :: real
  eps_end :: real
  eps_decay :: real
  steps_done :: nat
  choice :: "string option"
  timesteps :: nat
  steps :: nat

text \<open>
  \<open>BaseAgent\<close>. The two networks are objects with parameters of their own: \<open>store\<close> maps the
  address of a parameter to its value, \<open>net\<close> and \<open>target_net\<close> list the addresses of the
  parameters of the two networks, and \<open>optimizer\<close> lists the addresses the optimizer was
  constructed over.
\<close>

record base_agent = agent_core +
  screen_dim :: int
  gamma :: real
  update_cnt :: nat
  target_update_period :: int
  update_status :: "string option"
  store :: "addr \<Rightarrow> real"
  net :: "addr list"
  target_net :: "addr list"
  optimizer :: "addr list"

text \<open>
  One entry of the batch that \<open>optimize\<close> receives. The batch holds, per field, one tensor
  of leading dimension 1 for every sampled transition; it is modelled as the list of the
  transitions, so that all fields have the batch's length.
\<close>

record transition =
  state :: screen
  action :: nat
  x_coord :: nat
  y_coord :: nat
  reward :: real
  step_type :: int
  next_state :: screen

text \<open>
  The network \<open>DQN\<close> of \<open>AtariNet\<close> is not part of the sources. Its forward pass is a
  parameter \<open>forward\<close> of the functions below: from the values of a network's parameters and
  one screen to the value vectors of the three heads (action, x, y), or an exception (the
  reshape to \<open>(-1, 1, 84, 84)\<close> of a screen of another size, for one).
\<close>

type_synonym forward_pass = "real list \<Rightarrow> screen \<Rightarrow> py_error + (real list \<times> real list \<times> real list)"

section \<open>Exploration schedule (both agents)\<close>

text \<open>
  \<open>epsilon_greedy\<close> is the same in both agents. The value assigned to \<open>self.epsilon\<close>;
  Python's division raises when \<open>eps_decay\<close> is zero.
\<close>

definition decayed_epsilon :: "'a agent_core_scheme \<Rightarrow> real" where
  "decayed_epsilon s =
     eps_end s + (eps_start s - eps_end s) * exp (-1 * real (steps_done s) / eps_decay s)"

definition epsilon_greedy ::
    "real \<Rightarrow> 'a agent_core_scheme \<Rightarrow> py_error + (string \<times> 'a agent_core_scheme)" where
  "epsilon_greedy u s =
     (if eps_decay s = 0 then Inl ZeroDivisionError
      else
        let s1 = s\<lparr>epsilon := decayed_epsilon s\<rparr>;
            s2 = s1\<lparr>steps_done := steps_done s1 + 1\<rparr>
        in (case np_random_choice u (epsilon s2) of
              Inl e \<Rightarrow> Inl e
            | Inr c \<Rightarrow> Inr (c, s2)))"

section \<open>BaseAgent: choosing an action\<close>

text \<open>\<open>net.state_dict()\<close>: the values of a network's parameters, in order.\<close>

definition state_dict :: "(addr \<Rightarrow> real) \<Rightarrow> addr list \<Rightarrow> real list" where
  "state_dict st params = map st params"

text \<open>
  \<open>choose_action(obs)\<close>. The arguments \<open>u\<close>, \<open>r_a\<close>, \<open>r_x\<close>, \<open>r_y\<close> are the random draws. The
  result is the list with the chosen call and the three indices, with the updated agent.
  In the greedy branch \<open>SMART_ACTIONS[action_idx]\<close> raises when the index is out of range.
\<close>

definition choose_action ::
    "forward_pass \<Rightarrow> real \<Rightarrow> nat \<Rightarrow> nat \<Rightarrow> nat \<Rightarrow> observation \<Rightarrow> base_agent
       \<Rightarrow> py_error + ((nat function_call option list \<times> nat \<times> nat \<times> nat) \<times> base_agent)" where
  "choose_action forward u r_a r_x r_y obs s =
     (case epsilon_greedy u s of
        Inl e \<Rightarrow> Inl e
      | Inr (c, s1) \<Rightarrow>
          let s2 = s1\<lparr>choice := Some c\<rparr> in
          if c = ''random'' then
            (case np_random_randint (int (length SMART_ACTIONS)) r_a of
               Inl e \<Rightarrow> Inl e
             | Inr action_idx \<Rightarrow>
            (case np_random_randint (screen_dim s2) r_x of
               Inl e \<Rightarrow> Inl e
             | Inr x \<Rightarrow>
            (case np_random_randint (screen_dim s2) r_y of
               Inl e \<Rightarrow> Inl e
             | Inr y \<Rightarrow>
                 Inr (([get_action (available_actions obs) (SMART_ACTIONS ! action_idx) x y],
                       action_idx, x, y), s2))))
          else
            (case forward (state_dict (store s2) (net s2)) (player_relative obs) of
               Inl e \<Rightarrow> Inl e
             | Inr (action_q_values, x_coord_q_values, y_coord_q_values) \<Rightarrow>
            (case np_argmax action_q_values of
               Inl e \<Rightarrow> Inl e
             | Inr action_idx \<Rightarrow>
                 if length SMART_ACTIONS \<le> action_idx then Inl IndexError
                 else
            (case np_argmax x_coord_q_values of
               Inl e \<Rightarrow> Inl e
             | Inr x \<Rightarrow>
            (case np_argmax y_coord_q_values of
               Inl e \<Rightarrow> Inl e
             | Inr y \<Rightarrow>
                 Inr (([get_action (available_actions obs) (SMART_ACTIONS ! action_idx) x y],
                       action_idx, x, y), s2))))))"

text \<open>
  \<open>step(obs)\<close>: the base class's \<open>step\<close> counts the step in \<open>steps\<close>, the agent counts it in
  \<open>timesteps\<close> and chooses an action.
\<close>

definition step ::
    "forward_pass \<Rightarrow> real \<Rightarrow> nat \<Rightarrow> nat \<Rightarrow> nat \<Rightarrow> observation \<Rightarrow> base_agent
       \<Rightarrow> py_error + ((nat function_call option list \<times> nat \<times> nat \<times> nat) \<times> base_agent)" where
  "step forward u r_a r_x r_y obs s =
     (let s1 = s\<lparr>steps := steps s + 1\<rparr>;
          s2 = s1\<lparr>timesteps := timesteps s1 + 1\<rparr>
      in choose_action forward u r_a r_x r_y obs s2)"

section \<open>BaseAgent: the networks and their parameters\<close>

text \<open>
  \<open>_build_model\<close>: two separate \<open>DQN()\<close> objects and an optimizer constructed over
  \<open>net.parameters()\<close>. A network with \<open>n\<close> scalar parameters occupies \<open>n\<close> fresh addresses;
  the result lists the addresses of \<open>net\<close>, of \<open>target_net\<close> and of the optimizer's parameter
  group.
\<close>

definition build_model :: "nat \<Rightarrow> addr list \<times> addr list \<times> addr list" where
  "build_model n =
     (let net = [0..<n];
          target_net = [n..<n + n];
          optimizer = net
      in (net, target_net, optimizer))"

text \<open>
  \<open>__init__(screen_dim, minimap_dim, batch_size, target_update_period)\<close>, with the number
  \<open>n\<close> of parameters of a \<open>DQN\<close> and their initial values \<open>init\<close>.
\<close>

definition init_agent :: "nat \<Rightarrow> (addr \<Rightarrow> real) \<Rightarrow> int \<Rightarrow> int \<Rightarrow> base_agent" where
  "init_agent n init screen_dim' target_update_period' =
     (case build_model n of (net', target_net', optimizer') \<Rightarrow>
        \<lparr>epsilon = 1, eps_start = 1, eps_end = 5 / 100, eps_decay = 8000, steps_done = 0,
         choice = None, timesteps = 0, steps = 0,
         screen_dim = screen_dim', gamma = 9 / 10, update_cnt = 0,
         target_update_period = target_update_period', update_status = None,
         store = init, net = net', target_net = target_net', optimizer = optimizer'\<rparr>)"

text \<open>
  \<open>optimizer.step()\<close>: every parameter of the optimizer's parameter group receives a new
  value, and nothing else is written. \<open>new_value\<close> stands for what Adam computes for the
  parameter at an address from its gradient and moments.
\<close>

definition optimizer_step :: "(addr \<Rightarrow> real) \<Rightarrow> base_agent \<Rightarrow> base_agent" where
  "optimizer_step new_value s =
     s\<lparr>store := fold (\<lambda>p st. st(p := new_value p)) (optimizer s) (store s)\<rparr>"

text \<open>
  \<open>target.load_state_dict(values)\<close>: the values are written to the parameters of the
  target, one by one; torch raises when the two do not have the same entries.
\<close>

definition load_state_dict :: "addr list \<Rightarrow> real list \<Rightarrow> (addr \<Rightarrow> real) \<Rightarrow> py_error + (addr \<Rightarrow> real)" where
  "load_state_dict params vals st =
     (if length params \<noteq> length vals then Inl RuntimeError
      else Inr (fold (\<lambda>(p, v) st'. st'(p := v)) (zip params vals) st))"

text \<open>
  \<open>update_target_net()\<close>. Python's \<open>%\<close> raises on a zero divisor and otherwise agrees with
  \<open>mod\<close> on \<open>int\<close>.
\<close>

definition update_target_net :: "base_agent \<Rightarrow> py_error + base_agent" where
  "update_target_net s =
     (if target_update_period s = 0 then Inl ZeroDivisionError
      else if int (steps s) mod target_update_period s = 0 then
        (case load_state_dict (target_net s) (state_dict (store s) (net s)) (store s) of
           Inl e \<Rightarrow> Inl e
         | Inr st \<Rightarrow>
             Inr (s\<lparr>store := st, update_cnt := update_cnt s + 1,
                    update_status := Some ''Weights updated!''\<rparr>))
      else Inr (s\<lparr>update_status := None\<rparr>))"

section \<open>BaseAgent: the TD update\<close>

text \<open>The forward pass of a network on every state of a batch.\<close>

definition forward_batch ::
    "forward_pass \<Rightarrow> real list \<Rightarrow> screen list \<Rightarrow> py_error + (real list \<times> real list \<times> real list) list" where
  "forward_batch forward params states = sequence_err (map (forward params) states)"

text \<open>
  The TD target of one head, lines 215-216 (and 219-220, 223-224):
  \<open>next_values * gamma + reward_batch\<close>, then the entries at \<open>np.where(step_type_batch == 2)\<close>
  are overwritten with the rewards at these indices.
\<close>

definition td_target :: "real \<Rightarrow> real list \<Rightarrow> real list \<Rightarrow> int list \<Rightarrow> real list" where
  "td_target g next_values reward_batch step_type_batch =
     index_put (map2 (\<lambda>q r. q * g + r) next_values reward_batch)
       (np_where_eq step_type_batch 2)
       (map (\<lambda>i. reward_batch ! i) (np_where_eq step_type_batch 2))"

text \<open>
  \<open>optimize\<close> up to line 224: the gathered values of the online network and the TD targets,
  for the three heads. \<open>torch.cat\<close> raises on an empty batch.
\<close>

definition optimize_heads ::
    "forward_pass \<Rightarrow> transition list \<Rightarrow> base_agent
       \<Rightarrow> py_error + ((real list \<times> real list \<times> real list) \<times> (real list \<times> real list \<times> real list))" where
  "optimize_heads forward batch s =
     (if batch = [] then Inl RuntimeError
      else
        let action_batch = map action batch;
            x_coord_batch = map x_coord batch;
            y_coord_batch = map y_coord batch;
            reward_batch = map reward batch;
            step_type_batch = map step_type batch
        in
        (case forward_batch forward (state_dict (store s) (net s)) (map state batch) of
           Inl e \<Rightarrow> Inl e
         | Inr outs \<Rightarrow>
        (case gather (map fst outs) action_batch of
           Inl e \<Rightarrow> Inl e
         | Inr state_action_values \<Rightarrow>
        (case gather (map (fst \<circ> snd) outs) x_coord_batch of
           Inl e \<Rightarrow> Inl e
         | Inr x_q_values \<Rightarrow>
        (case gather (map (snd \<circ> snd) outs) y_coord_batch of
           Inl e \<Rightarrow> Inl e
         | Inr y_q_values \<Rightarrow>
        (case forward_batch forward (state_dict (store s) (target_net s)) (map next_state batch) of
           Inl e \<Rightarrow> Inl e
         | Inr next_outs \<Rightarrow>
        (case max_dim1 (map fst next_outs) of
           Inl e \<Rightarrow> Inl e
         | Inr next_state_values \<Rightarrow>
        (case max_dim1 (map (fst \<circ> snd) next_outs) of
           Inl e \<Rightarrow> Inl e
         | Inr next_x_q_values \<Rightarrow>
        (case max_dim1 (map (snd \<circ> snd) next_outs) of
           Inl e \<Rightarrow> Inl e
         | Inr next_y_q_values \<Rightarrow>
             Inr ((state_action_values, x_q_values, y_q_values),
                  (td_target (gamma s) next_state_values reward_batch step_type_batch,
                   td_target (gamma s) next_x_q_values reward_batch step_type_batch,
                   td_target (gamma s) next_y_q_values reward_batch step_type_batch)))))))))))"

text \<open>
  \<open>optimize(batch)\<close>: the loss over the concatenated heads, one optimizer step, and the
  call of \<open>update_target_net\<close>. The result is \<open>loss.item()\<close> with the updated agent.
\<close>

definition optimize ::
    "forward_pass \<Rightarrow> (addr \<Rightarrow> real) \<Rightarrow> transition list \<Rightarrow> base_agent \<Rightarrow> py_error + (real \<times> base_agent)" where
  "optimize forward new_value batch s =
     (case optimize_heads forward batch s of
        Inl e \<Rightarrow> Inl e
      | Inr ((state_action_values, x_q_values, y_q_values),
             (td_target_actions, td_target_x_coord, td_target_y_coord)) \<Rightarrow>
          let q_values_cat = state_action_values @ x_q_values @ y_q_values;
              td_target_cat = td_target_actions @ td_target_x_coord @ td_target_y_coord
          in
          (case mse_loss q_values_cat td_target_cat of
             Inl e \<Rightarrow> Inl e
           | Inr loss \<Rightarrow>
          (case update_target_net (optimizer_step new_value s) of
             Inl e \<Rightarrow> Inl e
           | Inr s' \<Rightarrow> Inr (loss, s'))))"

text \<open>
  What a training loop does with the agent: a \<open>step\<close> on an observation or an \<open>optimize\<close> on
  a batch. \<open>run\<close> performs a sequence of them and stops at the first exception.
\<close>

datatype event =
    Ev_step real nat nat nat observation
  | Ev_optimize "transition list" "addr \<Rightarrow> real"

fun run :: "forward_pass \<Rightarrow> event list \<Rightarrow> base_agent \<Rightarrow> py_error + base_agent" where
  "run forward [] s = Inr s"
| "run forward (Ev_step u r_a r_x r_y obs # evs) s =
     (case step forward u r_a r_x r_y obs s of
        Inl e \<Rightarrow> Inl e
      | Inr (_, s') \<Rightarrow> run forward evs s')"
| "run forward (Ev_optimize batch new_value # evs) s =
     (case optimize forward new_value batch s of
        Inl e \<Rightarrow> Inl e
      | Inr (_, s') \<Rightarrow> run forward evs s')"

text \<open>
  A sequence of decisions: \<open>choose_action\<close> once per entry, each with its draws and its
  observation.
\<close>

fun decisions ::
    "forward_pass \<Rightarrow> (real \<times> nat \<times> nat \<times> nat \<times> observation) list \<Rightarrow> base_agent
       \<Rightarrow> py_error + base_agent" where
  "decisions forward [] s = Inr s"
| "decisions forward ((u, r_a, r_x, r_y, obs) # ds) s =
     (case choose_action forward u r_a r_x r_y obs s of
        Inl e \<Rightarrow> Inl e
      | Inr (_, s') \<Rightarrow> decisions forward ds s')"

section \<open>CompassAgent: distance and reward shaping\<close>

text \<open>\<open>screen == v\<close>: the mask of the cells that hold \<open>v\<close>.\<close>

definition mask_eq :: "screen \<Rightarrow> int \<Rightarrow> bool list list" where
  "mask_eq scr v = map (map (\<lambda>c. c = v)) scr"

text \<open>
  \<open>_xy_locs(mask)\<close>: \<open>mask.nonzero()\<close> lists the set cells row by row, and the result pairs
  the column \<open>x\<close> with the row \<open>y\<close>.
\<close>

definition xy_locs :: "bool list list \<Rightarrow> (nat \<times> nat) list" where
  "xy_locs msk =
     concat (map (\<lambda>y. map (\<lambda>x. (x, y)) (filter (\<lambda>x. msk ! y ! x) [0..<length (msk ! y)]))
                 [0..<length msk])"

text \<open>
  What \<open>np.mean(locs, axis=0)\<close> yields: the array of the two means, or, for an empty list,
  the scalar \<open>nan\<close> (a \<open>numpy.float64\<close>, which is an instance of Python's \<open>float\<close>).
\<close>

datatype np_mean = Scalar_nan | Center real real

definition np_mean_axis0 :: "(nat \<times> nat) list \<Rightarrow> np_mean" where
  "np_mean_axis0 locs =
     (if locs = [] then Scalar_nan
      else Center (real (sum_list (map fst locs)) / real (length locs))
                  (real (sum_list (map snd locs)) / real (length locs)))"

text \<open>numpy rounds a value halfway between two integers to the even one.\<close>

definition round_half_even :: "real \<Rightarrow> real" where
  "round_half_even x =
     (let f = \<lfloor>x\<rfloor>; d = x - of_int f
      in if d < 1 / 2 then of_int f
         else if 1 / 2 < d then of_int (f + 1)
         else if even f then of_int f else of_int (f + 1))"

fun np_round :: "np_mean \<Rightarrow> np_mean" where
  "np_round Scalar_nan = Scalar_nan"
| "np_round (Center x y) = Center (round_half_even x) (round_half_even y)"

fun isinstance_float :: "np_mean \<Rightarrow> bool" where
  "isinstance_float Scalar_nan = True"
| "isinstance_float (Center _ _) = False"

definition hypot :: "real \<Rightarrow> real \<Rightarrow> real" where
  "hypot x y = sqrt (x\<^sup>2 + y\<^sup>2)"

text \<open>
  \<open>calculate_distance(screen_player_relative, screen_selected)\<close>. Indexing the scalar
  \<open>nan\<close> (\<open>beacon_center[0]\<close>, when no cell holds the beacon) raises an \<open>IndexError\<close>; after
  the replacement of a scalar \<open>marine_center\<close> this is the only case left without two arrays.
\<close>

definition calculate_distance ::
    "screen \<Rightarrow> screen \<Rightarrow> py_error + ((real \<times> real) \<times> (real \<times> real) \<times> real)" where
  "calculate_distance screen_player_relative screen_selected =
     (let marine = np_round (np_mean_axis0 (xy_locs (mask_eq screen_selected 1)));
          beacon = np_round (np_mean_axis0 (xy_locs (mask_eq screen_player_relative 3)));
          marine = (if isinstance_float marine then beacon else marine)
      in (case (beacon, marine) of
            (Center b0 b1, Center m0 m1) \<Rightarrow>
              Inr ((b0, b1), (m0, m1), hypot (b0 - m0) (b1 - m1))
          | _ \<Rightarrow> Inl IndexError))"

text \<open>
  \<open>CompassAgent\<close>, as far as action selection and reward shaping read and write it.
  \<open>agent_available_actions\<close> is \<open>self.available_actions\<close>. The running total \<open>self.reward\<close>,
  \<open>self.state\<close> and the replay memory of the missing \<open>DQN_module\<close> are left out.
\<close>

record compass_agent = agent_core +
  action_dim :: nat
  agent_available_actions :: "function_id list"
  feature_screen :: screen
  feature_screen2 :: screen
  beacon_center :: "real \<times> real"
  marine_center :: "real \<times> real"
  distance :: real
  feature_screen_next :: screen
  feature_screen_next2 :: screen
  beacon_center_next :: "real \<times> real"
  marine_center_next :: "real \<times> real"
  distance_next :: real
  reward_shaped :: real

text \<open>\<open>prepare_timestep(obs)\<close>.\<close>

definition prepare_timestep :: "observation \<Rightarrow> compass_agent \<Rightarrow> py_error + compass_agent" where
  "prepare_timestep obs s =
     (let s1 = s\<lparr>steps := steps s + 1\<rparr>;
          s2 = s1\<lparr>timesteps := timesteps s1 + 1\<rparr>;
          s3 = s2\<lparr>agent_available_actions := available_actions obs\<rparr>;
          s4 = s3\<lparr>feature_screen := player_relative obs, feature_screen2 := selected obs\<rparr>
      in (case calculate_distance (feature_screen s4) (feature_screen2 s4) of
            Inl e \<Rightarrow> Inl e
          | Inr (b, m, d) \<Rightarrow> Inr (s4\<lparr>beacon_center := b, marine_center := m, distance := d\<rparr>)))"

text \<open>\<open>reward_shaping()\<close>: the shaped reward, with the updated agent.\<close>

definition reward_shaping :: "compass_agent \<Rightarrow> py_error + (real \<times> compass_agent)" where
  "reward_shaping s =
     (case calculate_distance (feature_screen_next s) (feature_screen_next2 s) of
        Inl e \<Rightarrow> Inl e
      | Inr (b, m, d) \<Rightarrow>
          let s1 = s\<lparr>beacon_center_next := b, marine_center_next := m, distance_next := d\<rparr>;
              r = distance s1 - distance_next s1;
              r = (if distance s1 = 0 then 100 else r)
          in Inr (r, s1))"

text \<open>
  \<open>store_transition(next_obs)\<close>, up to the assignment of \<open>self.reward_shaped\<close>; the push to
  the replay memory that follows does not touch the agent's fields.
\<close>

definition store_transition :: "observation \<Rightarrow> compass_agent \<Rightarrow> py_error + compass_agent" where
  "store_transition next_obs s =
     (let s1 = s\<lparr>feature_screen_next := player_relative next_obs,
                  feature_screen_next2 := selected next_obs\<rparr>
      in (case reward_shaping s1 of
            Inl e \<Rightarrow> Inl e
          | Inr (r, s2) \<Rightarrow> Inr (s2\<lparr>reward_shaped := r\<rparr>)))"

text \<open>
  The shaped reward of a timestep: \<open>prepare_timestep\<close> on the observation, then
  \<open>store_transition\<close> on the next one.
\<close>

definition shaped_reward_of :: "observation \<Rightarrow> observation \<Rightarrow> compass_agent \<Rightarrow> py_error + real" where
  "shaped_reward_of obs next_obs s =
     (case prepare_timestep obs s of
        Inl e \<Rightarrow> Inl e
      | Inr s1 \<Rightarrow>
          (case store_transition next_obs s1 of
             Inl e \<Rightarrow> Inl e
           | Inr s2 \<Rightarrow> Inr (reward_shaped s2)))"

section \<open>CompassAgent: choosing an action\<close>

text \<open>
  \<open>choose_action(agent_mode)\<close>. \<open>smart\<close> is the list \<open>SMART_ACTIONS_SIMPLE_NAVIGATION\<close> of the
  missing module \<open>assets.smart_actions\<close>. The module of the agent never imports \<open>torch\<close>, so
  the first statement of the greedy branch, \<open>with torch.no_grad()\<close>, raises a \<open>NameError\<close>
  and the statements after it are not reached.
\<close>

definition compass_choose_action ::
    "string list \<Rightarrow> string \<Rightarrow> real \<Rightarrow> nat \<Rightarrow> compass_agent
       \<Rightarrow> py_error + ((real function_call option list \<times> nat) \<times> compass_agent)" where
  "compass_choose_action smart agent_mode u r_a s =
     (case epsilon_greedy u s of
        Inl e \<Rightarrow> Inl e
      | Inr (c, s1) \<Rightarrow>
          let s2 = s1\<lparr>choice := Some c\<rparr> in
          if c = ''random'' \<and> agent_mode = ''learn'' then
            (case np_random_randint (int (action_dim s2)) r_a of
               Inl e \<Rightarrow> Inl e
             | Inr action_idx \<Rightarrow>
                 if length smart \<le> action_idx then Inl IndexError
                 else Inr (([translate_to_PYSC2_action (agent_available_actions s2)
                               (marine_center s2) (smart ! action_idx)], action_idx), s2))
          else Inl NameError)"

section \<open>Predicates and examples used in the statements\<close>

text \<open>
  \<open>first_argmax q i\<close>: \<open>i\<close> is an index of \<open>q\<close>, no entry of \<open>q\<close> is greater than the one
  at \<open>i\<close>, and every entry before \<open>i\<close> is strictly smaller.
\<close>

definition first_argmax :: "real list \<Rightarrow> nat \<Rightarrow> bool" where
  "first_argmax q i \<longleftrightarrow>
     i < length q \<and> (\<forall>j < length q. q ! j \<le> q ! i) \<and> (\<forall>j < i. q ! j < q ! i)"

text \<open>
  A \<open>BaseAgent\<close> as \<open>__init__\<close> leaves it (networks of two parameters each, screen
  dimension 84, target update period 5), a forward pass with fixed value vectors, and an
  observation of a 2 x 2 screen.
\<close>

definition example_agent :: base_agent where
  "example_agent = init_agent 2 (\<lambda>_. 0) 84 5"

definition example_forward :: forward_pass where
  "example_forward params scr = Inr ([1, 3, 2], [0, 5, 5], [7, 7])"

definition example_obs :: observation where
  "example_obs =
     \<lparr>available_actions = [no_op_id, select_army_id, Move_screen_id],
      player_relative = [[0, 0], [3, 0]], selected = [[0, 1], [0, 0]]\<rparr>"

text \<open>
  A \<open>CompassAgent\<close> with the schedule of \<open>src/hdrln/specs/agent_specs.py\<close>, before its first
  timestep.
\<close>

definition example_compass :: compass_agent where
  "example_compass =
     \<lparr>epsilon = 1, eps_start = 1, eps_end = 1 / 10, eps_decay = 250000000, steps_done = 0,
      choice = None, timesteps = 0, steps = 0,
      action_dim = 4, agent_available_actions = [no_op_id, Move_screen_id],
      feature_screen = [], feature_screen2 = [],
      beacon_center = (0, 0), marine_center = (0, 0), distance = 0,
      feature_screen_next = [], feature_screen_next2 = [],
      beacon_center_next = (0, 0), marine_center_next = (0, 0), distance_next = 0,
      reward_shaped = 0\<rparr>"

text \<open>
  Screens of five rows and four columns with the beacon in the cell \<open>(x, y) = (0, 0)\<close>, and
  observations with the selected marine at \<open>(3, 4)\<close>, at \<open>(3, 0)\<close>, and with no marine
  selected.
\<close>

definition screen_beacon :: screen where
  "screen_beacon = [[3, 0, 0, 0], [0, 0, 0, 0], [0, 0, 0, 0], [0, 0, 0, 0], [0, 0, 0, 0]]"

definition obs_far :: observation where
  "obs_far =
     \<lparr>available_actions = [no_op_id, Move_screen_id], player_relative = screen_beacon,
      selected = [[0, 0, 0, 0], [0, 0, 0, 0], [0, 0, 0, 0], [0, 0, 0, 0], [0, 0, 0, 1]]\<rparr>"

definition obs_near :: observation where
  "obs_near =
     \<lparr>available_actions = [no_op_id, Move_screen_id], player_relative = screen_beacon,
      selected = [[0, 0, 0, 1], [0, 0, 0, 0], [0, 0, 0, 0], [0, 0, 0, 0], [0, 0, 0, 0]]\<rparr>"

definition obs_unselected :: observation where
  "obs_unselected =
     \<lparr>available_actions = [no_op_id, select_army_id], player_relative = screen_beacon,
      selected = [[0, 0, 0, 0], [0, 0, 0, 0], [0, 0, 0, 0], [0, 0, 0, 0], [0, 0, 0, 0]]\<rparr>"

section \<open>Availability (BaseAgent)\<close>

lemma function_ids_distinct:
  "no_op_id \<noteq> select_army_id" "no_op_id \<noteq> Move_screen_id" "select_army_id \<noteq> Move_screen_id"
  by (simp_all add: no_op_id_def select_army_id_def Move_screen_id_def)

lemma get_action_smart:
  assumes "a \<in> set SMART_ACTIONS"
  shows "get_action av a x y =
           Some (if can_do av a
                 then (if a = Move_screen_id then Move_screen ''now'' x y
                       else if a = select_army_id then Select_army ''select''
                       else No_op)
                 else No_op)"
  using assms by (auto simp: get_action_def SMART_ACTIONS_def)

text \<open>
  Claim C9. For every action id of \<open>SMART_ACTIONS\<close> that the observation does not list as
  available, \<open>get_action\<close> returns \<open>no_op\<close>. Consequently the call that \<open>get_action\<close> emits
  for an id of \<open>SMART_ACTIONS\<close> is never an unavailable one: it is the requested function
  when that is available and \<open>no_op\<close> otherwise, and \<open>no_op\<close> is listed by every pysc2
  observation (the premise \<open>no_op_id \<in> set av\<close>).
\<close>

theorem get_action_never_unavailable:
  "a \<in> set SMART_ACTIONS \<Longrightarrow>
     (a \<notin> set av \<longrightarrow> get_action av a x y = Some No_op) \<and>
     (no_op_id \<in> set av \<longrightarrow>
        (\<exists>call. get_action av a x y = Some call \<and> function_of call \<in> set av))"
proof (intro conjI impI)
  assume "a \<notin> set av"
  then show "get_action av a x y = Some No_op"
    by (simp add: get_action_def can_do_def)
next
  assume "a \<in> set SMART_ACTIONS" and "no_op_id \<in> set av"
  then show "\<exists>call. get_action av a x y = Some call \<and> function_of call \<in> set av"
    using function_ids_distinct
    by (auto simp: get_action_smart can_do_def SMART_ACTIONS_def)
qed

theorem get_action_never_unavailable_witness:
  "Move_screen_id \<in> set SMART_ACTIONS \<and> Move_screen_id \<notin> set [no_op_id, select_army_id]
   \<and> no_op_id \<in> set [no_op_id, select_army_id]
   \<and> get_action [no_op_id, select_army_id] Move_screen_id 3 4 = Some No_op
   \<and> (\<exists>call. get_action [no_op_id, select_army_id] Move_screen_id 3 4 = Some call
         \<and> function_of call \<in> set [no_op_id, select_army_id])"
proof -
  have m: "Move_screen_id \<in> set SMART_ACTIONS"
    by (simp add: SMART_ACTIONS_def)
  have n: "Move_screen_id \<notin> set [no_op_id, select_army_id]"
    using function_ids_distinct by auto
  have o: "no_op_id \<in> set [no_op_id, select_army_id]"
    by simp
  from get_action_never_unavailable [OF m, of "[no_op_id, select_army_id]" 3 4] m n o
  show ?thesis by blast
qed

section \<open>Screen boundary (CompassAgent)\<close>

text \<open>
  Claim C10. With \<open>Move_screen\<close> available, a command that would cross the screen boundary
  (\<open>left\<close> at \<open>x \<le> 0\<close>, \<open>up\<close> at \<open>y \<le> 0\<close>, \<open>right\<close> at \<open>x \<ge> 83\<close>, \<open>down\<close> at \<open>y \<ge> 63\<close>) makes
  \<open>translate_to_PYSC2_action\<close> return \<open>None\<close>: neither a clamped move nor a \<open>no_op\<close>.
  A \<open>no_op\<close> is returned exactly when \<open>Move_screen\<close> is unavailable.
\<close>

theorem translate_boundary_returns_None:
  "(can_do av Move_screen_id \<and> crosses_boundary mc a
      \<longrightarrow> translate_to_PYSC2_action av mc a = None) \<and>
   (translate_to_PYSC2_action av mc a = Some No_op \<longleftrightarrow> \<not> can_do av Move_screen_id)"
  by (auto simp: translate_to_PYSC2_action_def crosses_boundary_def)

theorem translate_boundary_returns_None_witness:
  "can_do [no_op_id, Move_screen_id] Move_screen_id \<and> crosses_boundary (0, 10) ''left''
   \<and> translate_to_PYSC2_action [no_op_id, Move_screen_id] (0, 10) ''left'' = None
   \<and> \<not> can_do [no_op_id] Move_screen_id
   \<and> translate_to_PYSC2_action [no_op_id] (0, 10) ''left'' = Some No_op"
proof -
  have c: "can_do [no_op_id, Move_screen_id] Move_screen_id"
    by (simp add: can_do_def)
  have b: "crosses_boundary (0, 10) ''left''"
    by (simp add: crosses_boundary_def)
  have n: "\<not> can_do [no_op_id] Move_screen_id"
    using function_ids_distinct by (auto simp: can_do_def)
  from translate_boundary_returns_None [of "[no_op_id, Move_screen_id]" "(0, 10)" "''left''"] c b
  have r: "translate_to_PYSC2_action [no_op_id, Move_screen_id] (0, 10) ''left'' = None"
    by blast
  from translate_boundary_returns_None [of "[no_op_id]" "(0, 10)" "''left''"] n
  have s: "translate_to_PYSC2_action [no_op_id] (0, 10) ''left'' = Some No_op"
    by blast
  from c b r n s show ?thesis by blast
qed

section \<open>Exploration schedule\<close>

lemma eg_Inr: "epsilon_greedy u s = Inr (c, s') \<Longrightarrow>
   eps_decay s \<noteq> 0 \<and> s' = s\<lparr>epsilon := decayed_epsilon s, steps_done := steps_done s + 1\<rparr>
   \<and> c = (if u < decayed_epsilon s then ''random'' else ''greedy'')
   \<and> 0 \<le> decayed_epsilon s \<and> decayed_epsilon s \<le> 1"
  by (auto simp: epsilon_greedy_def np_random_choice_def Let_def split: if_splits)

lemma dec_lim: 
  assumes "0 < eps_decay s"
  shows "(\<lambda>n. decayed_epsilon (s\<lparr>steps_done := n\<rparr>)) \<longlonglongrightarrow> eps_end s"
proof -
  let ?q = "exp (- 1 / eps_decay s)"
  have e: "exp (-1 * real n / eps_decay s) = ?q ^ n" for n
    using exp_of_nat_mult [of n "- 1 / eps_decay s"] by simp
  have q: "0 \<le> ?q" "?q < 1" using assms by simp_all
  have "(\<lambda>n. ?q ^ n) \<longlonglongrightarrow> 0" by (rule LIMSEQ_realpow_zero [OF q])
  then have "(\<lambda>n. (eps_start s - eps_end s) * ?q ^ n) \<longlonglongrightarrow> (eps_start s - eps_end s) * 0"
    by (rule tendsto_mult_left)
  then have "(\<lambda>n. eps_end s + (eps_start s - eps_end s) * ?q ^ n)
                \<longlonglongrightarrow> eps_end s + (eps_start s - eps_end s) * 0"
    by (rule tendsto_add [OF tendsto_const])
  moreover have "decayed_epsilon (s\<lparr>steps_done := n\<rparr>)
                   = eps_end s + (eps_start s - eps_end s) * ?q ^ n" for n
    unfolding decayed_epsilon_def using e [of n] by simp
  ultimately show ?thesis
    by simp
qed

lemma dec_bounds:
  assumes "eps_end s \<le> eps_start s" "0 < eps_decay s"
  shows "eps_end s \<le> decayed_epsilon s \<and> decayed_epsilon s \<le> eps_start s"
proof -
  let ?E = "exp (-1 * real (steps_done s) / eps_decay s)"
  have "-1 * real (steps_done s) / eps_decay s \<le> 0"
    using assms(2) by (simp add: divide_nonpos_pos)
  then have E: "0 \<le> ?E" "?E \<le> 1" by simp_all
  have d: "0 \<le> eps_start s - eps_end s" using assms(1) by simp
  have "0 \<le> (eps_start s - eps_end s) * ?E"
    using d E(1) by (rule mult_nonneg_nonneg)
  moreover have "(eps_start s - eps_end s) * ?E \<le> (eps_start s - eps_end s) * 1"
    using E(2) d by (rule mult_left_mono)
  ultimately show ?thesis by (simp add: decayed_epsilon_def)
qed

lemma eg_total:
  assumes "0 < eps_end s" "eps_end s \<le> eps_start s" "eps_start s \<le> 1" "0 < eps_decay s"
  shows "\<exists>c s'. epsilon_greedy u s = Inr (c, s')"
proof -
  from dec_bounds [OF assms(2) assms(4)] assms(1,3)
  have "0 \<le> decayed_epsilon s" "decayed_epsilon s \<le> 1" by linarith+
  then show ?thesis using assms(4)
    by (simp add: epsilon_greedy_def np_random_choice_def Let_def)
qed

lemma example_agent_fields:
  "eps_end example_agent = 5 / 100" "eps_start example_agent = 1" "eps_decay example_agent = 8000"
  "steps_done example_agent = 0" "screen_dim example_agent = 84"
  "store example_agent = (\<lambda>_. 0)" "net example_agent = [0, 1]" "target_net example_agent = [2, 3]"
  "optimizer example_agent = [0, 1]" "steps example_agent = 0" "target_update_period example_agent = 5"
  "gamma example_agent = 9 / 10" "update_cnt example_agent = 0"
  by (simp_all add: example_agent_def init_agent_def build_model_def Let_def upt_rec)

lemma dec_mono: "eps_end s \<le> eps_start s \<Longrightarrow> 0 < eps_decay s \<Longrightarrow> m \<le> n \<Longrightarrow>
  decayed_epsilon (s\<lparr>steps_done := n\<rparr>) \<le> decayed_epsilon (s\<lparr>steps_done := m\<rparr>)"
  apply (simp add: decayed_epsilon_def)
  apply (rule mult_left_mono)
  apply (simp add: divide_right_mono)
  apply simp
  done

text \<open>
  Claim C2. The epsilon that \<open>epsilon_greedy\<close> assigns and draws with is
  \<open>eps_end + (eps_start - eps_end) * exp (- steps_done / eps_decay)\<close> for the value of
  \<open>steps_done\<close> at the call. With \<open>eps_start \<ge> eps_end > 0\<close> and \<open>eps_decay > 0\<close> it equals
  \<open>eps_start\<close> at \<open>steps_done = 0\<close>, does not increase with \<open>steps_done\<close> and converges to
  \<open>eps_end\<close>. When moreover \<open>eps_start \<le> 1\<close> the call returns for every draw.
\<close>

theorem epsilon_schedule:
  assumes "0 < eps_end s" "eps_end s \<le> eps_start s" "0 < eps_decay s"
  shows "(\<forall>u c s'. epsilon_greedy u s = Inr (c, s') \<longrightarrow>
            epsilon s' = decayed_epsilon s \<and> (c = ''random'' \<longleftrightarrow> u < epsilon s'))
       \<and> decayed_epsilon s
           = eps_end s + (eps_start s - eps_end s) * exp (- real (steps_done s) / eps_decay s)
       \<and> decayed_epsilon (s\<lparr>steps_done := 0\<rparr>) = eps_start s
       \<and> (\<forall>m n. m \<le> n \<longrightarrow>
            decayed_epsilon (s\<lparr>steps_done := n\<rparr>) \<le> decayed_epsilon (s\<lparr>steps_done := m\<rparr>))
       \<and> (\<lambda>n. decayed_epsilon (s\<lparr>steps_done := n\<rparr>)) \<longlonglongrightarrow> eps_end s
       \<and> (eps_start s \<le> 1 \<longrightarrow> (\<forall>u. \<exists>c s'. epsilon_greedy u s = Inr (c, s')))"
proof (intro conjI allI impI)
  fix u c s' assume e: "epsilon_greedy u s = Inr (c, s')"
  from eg_Inr [OF e] show "epsilon s' = decayed_epsilon s" by simp
  from eg_Inr [OF e] show "c = ''random'' \<longleftrightarrow> u < epsilon s'" by simp
next
  show "decayed_epsilon s
           = eps_end s + (eps_start s - eps_end s) * exp (- real (steps_done s) / eps_decay s)"
    by (simp add: decayed_epsilon_def)
next
  show "decayed_epsilon (s\<lparr>steps_done := 0\<rparr>) = eps_start s"
    by (simp add: decayed_epsilon_def)
next
  fix m n :: nat assume "m \<le> n"
  then show "decayed_epsilon (s\<lparr>steps_done := n\<rparr>) \<le> decayed_epsilon (s\<lparr>steps_done := m\<rparr>)"
    using assms by (intro dec_mono)
next
  show "(\<lambda>n. decayed_epsilon (s\<lparr>steps_done := n\<rparr>)) \<longlonglongrightarrow> eps_end s"
    using assms(3) by (rule dec_lim)
next
  fix u assume "eps_start s \<le> 1"
  with assms show "\<exists>c s'. epsilon_greedy u s = Inr (c, s')" by (intro eg_total)
qed

theorem epsilon_schedule_witness:
  "0 < eps_end example_agent \<and> eps_end example_agent \<le> eps_start example_agent
   \<and> 0 < eps_decay example_agent \<and> eps_start example_agent \<le> 1
   \<and> (\<exists>c s'. epsilon_greedy (1 / 2) example_agent = Inr (c, s') \<and> epsilon s' = 1 \<and> c = ''random'')
   \<and> decayed_epsilon (example_agent\<lparr>steps_done := 0\<rparr>) = 1
   \<and> decayed_epsilon (example_agent\<lparr>steps_done := 2\<rparr>)
        \<le> decayed_epsilon (example_agent\<lparr>steps_done := 1\<rparr>)
   \<and> (\<lambda>n. decayed_epsilon (example_agent\<lparr>steps_done := n\<rparr>)) \<longlonglongrightarrow> 5 / 100"
proof -
  have h: "0 < eps_end example_agent" "eps_end example_agent \<le> eps_start example_agent"
    "0 < eps_decay example_agent" "eps_start example_agent \<le> 1"
    by (simp_all add: example_agent_fields)
  note t = epsilon_schedule [OF h(1-3)]
  from t h(4) obtain c s' where e: "epsilon_greedy (1 / 2) example_agent = Inr (c, s')" by blast
  from t e have "epsilon s' = decayed_epsilon example_agent" "c = ''random'' \<longleftrightarrow> 1 / 2 < epsilon s'"
    by blast+
  moreover have d0: "decayed_epsilon example_agent = 1"
    by (simp add: decayed_epsilon_def example_agent_fields)
  ultimately have "epsilon s' = 1 \<and> c = ''random''" by simp
  with e have 1: "\<exists>c s'. epsilon_greedy (1 / 2) example_agent = Inr (c, s') \<and> epsilon s' = 1 \<and> c = ''random''"
    by blast
  from t have 2: "decayed_epsilon (example_agent\<lparr>steps_done := 0\<rparr>) = 1"
    by (simp add: example_agent_fields)
  from t have 3: "decayed_epsilon (example_agent\<lparr>steps_done := 2\<rparr>)
        \<le> decayed_epsilon (example_agent\<lparr>steps_done := 1\<rparr>)" by simp
  from t have 4: "(\<lambda>n. decayed_epsilon (example_agent\<lparr>steps_done := n\<rparr>)) \<longlonglongrightarrow> 5 / 100"
    by (simp add: example_agent_fields)
  from h 1 2 3 4 show ?thesis by blast
qed

section \<open>Argmax and the decisions of BaseAgent\<close>

lemma argmax_from_correct:
  assumes "bi < length pre" "pre ! bi = best" "\<forall>j < length pre. pre ! j \<le> best"
    "\<forall>j < bi. pre ! j < best"
  shows "first_argmax (pre @ xs) (argmax_from best bi (length pre) xs)"
  using assms
proof (induction xs arbitrary: pre best bi)
  case Nil
  then show ?case by (simp add: first_argmax_def)
next
  case (Cons x xs)
  show ?case
  proof (cases "best < x")
    case True
    have "first_argmax ((pre @ [x]) @ xs) (argmax_from x (length pre) (length (pre @ [x])) xs)"
    proof (rule Cons.IH)
      show "length pre < length (pre @ [x])" by simp
      show "(pre @ [x]) ! length pre = x" by simp
      show "\<forall>j<length (pre @ [x]). (pre @ [x]) ! j \<le> x"
        using Cons.prems(3) True by (auto simp: nth_append less_Suc_eq)
      show "\<forall>j<length pre. (pre @ [x]) ! j < x"
        using Cons.prems(3) True by (auto simp: nth_append)
    qed
    with True show ?thesis by simp
  next
    case False
    have "first_argmax ((pre @ [x]) @ xs) (argmax_from best bi (length (pre @ [x])) xs)"
    proof (rule Cons.IH)
      show "bi < length (pre @ [x])" using Cons.prems(1) by simp
      show "(pre @ [x]) ! bi = best" using Cons.prems(1,2) by (simp add: nth_append)
      show "\<forall>j<length (pre @ [x]). (pre @ [x]) ! j \<le> best"
        using Cons.prems(3) False by (auto simp: nth_append less_Suc_eq)
      show "\<forall>j<bi. (pre @ [x]) ! j < best"
        using Cons.prems(1,4) by (auto simp: nth_append)
    qed
    with False show ?thesis by simp
  qed
qed

lemma np_argmax_first: "np_argmax q = Inr i \<Longrightarrow> first_argmax q i"
proof (cases q)
  case Nil
  assume "np_argmax q = Inr i"
  with Nil show ?thesis by (simp add: np_argmax_def)
next
  case (Cons x rest)
  assume "np_argmax q = Inr i"
  with Cons have i: "i = argmax_from x 0 (length [x]) rest" by (simp add: np_argmax_def)
  have "first_argmax ([x] @ rest) (argmax_from x 0 (length [x]) rest)"
    by (rule argmax_from_correct) simp_all
  with i Cons show ?thesis by simp
qed

lemma first_argmax_unique: "first_argmax q i \<Longrightarrow> first_argmax q j \<Longrightarrow> i = j"
  unfolding first_argmax_def by (metis linorder_neqE_nat not_le)

lemma first_argmax_Max: "first_argmax q i \<Longrightarrow> q ! i = Max (set q)"
  unfolding first_argmax_def
  by (intro Max_eqI [symmetric]) (auto simp: in_set_conv_nth)

lemma choose_action_state:
  assumes "choose_action forward u r_a r_x r_y obs s = Inr (res, s')"
  shows "s' = s\<lparr>epsilon := decayed_epsilon s, steps_done := steps_done s + 1,
                choice := Some (if u < decayed_epsilon s then ''random'' else ''greedy'')\<rparr>"
proof -
  from assms obtain c s1 where e: "epsilon_greedy u s = Inr (c, s1)"
    by (auto simp: choose_action_def split: sum.splits)
  from assms e have "s' = s1\<lparr>choice := Some c\<rparr>"
    by (auto simp: choose_action_def Let_def split: sum.splits if_splits prod.splits)
  with eg_Inr [OF e] show ?thesis by simp
qed

lemma choose_action_greedy:
  assumes "choose_action forward u r_a r_x r_y obs s = Inr ((calls, a_idx, x, y), s')"
    and "choice s' = Some ''greedy''"
    and "forward (state_dict (store s) (net s)) (player_relative obs) = Inr (qa, qx, qy)"
  shows "np_argmax qa = Inr a_idx \<and> np_argmax qx = Inr x \<and> np_argmax qy = Inr y
         \<and> calls = [get_action (available_actions obs) (SMART_ACTIONS ! a_idx) x y]"
proof -
  from assms(1) obtain c s1 where e: "epsilon_greedy u s = Inr (c, s1)"
    by (auto simp: choose_action_def split: sum.splits)
  note s1 = eg_Inr [OF e]
  from choose_action_state [OF assms(1)] assms(2) have g: "\<not> u < decayed_epsilon s"
    by (auto split: if_splits)
  with s1 have c: "c = ''greedy''" by simp
  have st: "store s1 = store s" "net s1 = net s"
    using s1 by simp_all
  from assms(1) show ?thesis
    unfolding choose_action_def e
    by (simp add: Let_def c st assms(3) split: sum.splits if_splits)
qed

lemma compass_choose_action_state:
  assumes "compass_choose_action smart agent_mode u r_a s = Inr (res, s')"
  shows "s' = s\<lparr>epsilon := decayed_epsilon s, steps_done := steps_done s + 1,
                choice := Some ''random''\<rparr> \<and> u < decayed_epsilon s \<and> agent_mode = ''learn''"
proof -
  from assms obtain c s1 where e: "epsilon_greedy u s = Inr (c, s1)"
    by (auto simp: compass_choose_action_def split: sum.splits)
  from assms e have "s' = s1\<lparr>choice := Some c\<rparr> \<and> c = ''random'' \<and> agent_mode = ''learn''"
    by (auto simp: compass_choose_action_def Let_def split: sum.splits if_splits prod.splits)
  with eg_Inr [OF e] show ?thesis by (auto split: if_splits)
qed

lemma compass_greedy_NameError:
  assumes "epsilon_greedy u s = Inr (''greedy'', s1)"
  shows "compass_choose_action smart agent_mode u r_a s = Inl NameError"
  using assms by (simp add: compass_choose_action_def Let_def)

lemma decisions_steps_done:
  "decisions forward ds s = Inr s' \<Longrightarrow> steps_done s' = steps_done s + length ds"
proof (induction ds arbitrary: s)
  case Nil
  then show ?case by simp
next
  case (Cons d ds)
  obtain u r_a r_x r_y obs where d: "d = (u, r_a, r_x, r_y, obs)" by (cases d) auto
  from Cons.prems d obtain res s1 where
    c: "choose_action forward u r_a r_x r_y obs s = Inr (res, s1)" and r: "decisions forward ds s1 = Inr s'"
    by (auto split: sum.splits)
  from choose_action_state [OF c] have "steps_done s1 = steps_done s + 1" by simp
  with Cons.IH [OF r] show ?case by simp
qed

section \<open>Decisions and the step counter\<close>

lemma epsilon_greedy_eval:
  assumes "eps_decay s \<noteq> 0" "0 \<le> decayed_epsilon s" "decayed_epsilon s \<le> 1"
  shows "epsilon_greedy u s =
           Inr (if u < decayed_epsilon s then ''random'' else ''greedy'',
                s\<lparr>epsilon := decayed_epsilon s, steps_done := steps_done s + 1\<rparr>)"
  using assms by (simp add: epsilon_greedy_def np_random_choice_def Let_def)

lemma choose_action_random_eval:
  assumes "eps_decay s \<noteq> 0" "0 \<le> decayed_epsilon s" "decayed_epsilon s \<le> 1"
    and "u < decayed_epsilon s" and "0 < screen_dim s"
  shows "choose_action forward u r_a r_x r_y obs s =
           Inr (([get_action (available_actions obs) (SMART_ACTIONS ! (r_a mod 3))
                    (r_x mod nat (screen_dim s)) (r_y mod nat (screen_dim s))],
                 r_a mod 3, r_x mod nat (screen_dim s), r_y mod nat (screen_dim s)),
                s\<lparr>epsilon := decayed_epsilon s, steps_done := steps_done s + 1,
                  choice := Some ''random''\<rparr>)"
  using assms(4,5)
  by (simp add: choose_action_def epsilon_greedy_eval [OF assms(1-3)] Let_def
      np_random_randint_def SMART_ACTIONS_def)

lemma choose_action_greedy_eval:
  assumes "eps_decay s \<noteq> 0" "0 \<le> decayed_epsilon s" "decayed_epsilon s \<le> 1"
    and "\<not> u < decayed_epsilon s"
    and "forward (state_dict (store s) (net s)) (player_relative obs) = Inr (qa, qx, qy)"
    and "np_argmax qa = Inr i" "i < 3" "np_argmax qx = Inr x" "np_argmax qy = Inr y"
  shows "choose_action forward u r_a r_x r_y obs s =
           Inr (([get_action (available_actions obs) (SMART_ACTIONS ! i) x y], i, x, y),
                s\<lparr>epsilon := decayed_epsilon s, steps_done := steps_done s + 1,
                  choice := Some ''greedy''\<rparr>)"
  using assms(4-9)
  by (simp add: choose_action_def epsilon_greedy_eval [OF assms(1-3)] Let_def SMART_ACTIONS_def)

lemma exp_minus_one_le_half: "exp (- 1 :: real) \<le> 1 / 2"
proof -
  have "(2::real) \<le> exp 1" using exp_ge_add_one_self [of "1::real"] by simp
  then have "inverse (exp (1::real)) \<le> inverse 2" by (intro le_imp_inverse_le) simp_all
  then show ?thesis by (simp add: exp_minus)
qed

lemma trained_dec: "decayed_epsilon (example_agent\<lparr>steps_done := 8000\<rparr>) = 5 / 100 + 95 / 100 * exp (- 1)"
  by (simp add: decayed_epsilon_def example_agent_fields)

lemma trained_dec_bounds:
  "0 \<le> decayed_epsilon (example_agent\<lparr>steps_done := 8000\<rparr>)"
  "decayed_epsilon (example_agent\<lparr>steps_done := 8000\<rparr>) \<le> 21 / 40"
proof -
  have "0 \<le> exp (- 1 :: real)" by simp
  then show "0 \<le> decayed_epsilon (example_agent\<lparr>steps_done := 8000\<rparr>)"
    unfolding trained_dec by linarith
  show "decayed_epsilon (example_agent\<lparr>steps_done := 8000\<rparr>) \<le> 21 / 40"
    unfolding trained_dec using exp_minus_one_le_half by linarith
qed

lemma example_argmax:
  "np_argmax [1, 3, 2] = Inr 1" "np_argmax [0, 5, 5] = Inr 1" "np_argmax [7, 7] = Inr 0"
  by (simp_all add: np_argmax_def)

lemma example_greedy:
  "choose_action example_forward (99 / 100) 0 0 0 example_obs (example_agent\<lparr>steps_done := 8000\<rparr>)
     = Inr (([Some (Select_army ''select'')], 1, 1, 0),
            example_agent\<lparr>epsilon := decayed_epsilon (example_agent\<lparr>steps_done := 8000\<rparr>),
               steps_done := 8001, choice := Some ''greedy''\<rparr>)"
proof -
  let ?s = "example_agent\<lparr>steps_done := 8000\<rparr>"
  have d: "eps_decay ?s \<noteq> 0" by (simp add: example_agent_fields)
  have g: "\<not> 99 / 100 < decayed_epsilon ?s" using trained_dec_bounds(2) by linarith
  have le1: "decayed_epsilon ?s \<le> 1" using trained_dec_bounds(2) by linarith
  have f: "example_forward (state_dict (store ?s) (net ?s)) (player_relative example_obs)
             = Inr ([1, 3, 2], [0, 5, 5], [7, 7])"
    by (simp add: example_forward_def)
  have "choose_action example_forward (99 / 100) 0 0 0 example_obs ?s =
           Inr (([get_action (available_actions example_obs) (SMART_ACTIONS ! 1) 1 0], 1, 1, 0),
                ?s\<lparr>epsilon := decayed_epsilon ?s, steps_done := steps_done ?s + 1,
                  choice := Some ''greedy''\<rparr>)"
  proof (rule choose_action_greedy_eval)
    show "example_forward (state_dict (store ?s) (net ?s)) (player_relative example_obs)
             = Inr ([1, 3, 2], [0, 5, 5], [7, 7])" by (rule f)
  qed (use d le1 g trained_dec_bounds(1) example_argmax in simp_all)
  moreover have "get_action (available_actions example_obs) (SMART_ACTIONS ! 1) 1 0 = Some (Select_army ''select'')"
    using function_ids_distinct by (simp add: get_action_def can_do_def example_obs_def SMART_ACTIONS_def)
  ultimately show ?thesis by (simp add: example_agent_fields)
qed

lemma decayed_epsilon_update [simp]:
  "decayed_epsilon (s\<lparr>epsilon := e\<rparr>) = decayed_epsilon s"
  "decayed_epsilon (s\<lparr>choice := c\<rparr>) = decayed_epsilon s"
  "decayed_epsilon (s\<lparr>epsilon := e, steps_done := n\<rparr>) = decayed_epsilon (s\<lparr>steps_done := n\<rparr>)"
  by (simp_all add: decayed_epsilon_def)

text \<open>
  Claim C8. In the greedy branch of \<open>choose_action\<close> (\<open>BaseAgent\<close>) the index chosen for each
  of the three heads is \<open>np.argmax\<close> of that head's value vector alone: it is an index of a
  maximal entry, and every entry before it is strictly smaller (ties go to the first index).
\<close>

theorem greedy_choice_is_first_argmax:
  assumes "choose_action forward u r_a r_x r_y obs s = Inr ((calls, a_idx, x, y), s')"
    and "choice s' = Some ''greedy''"
    and "forward (state_dict (store s) (net s)) (player_relative obs) = Inr (qa, qx, qy)"
  shows "np_argmax qa = Inr a_idx \<and> np_argmax qx = Inr x \<and> np_argmax qy = Inr y
       \<and> first_argmax qa a_idx \<and> first_argmax qx x \<and> first_argmax qy y
       \<and> qa ! a_idx = Max (set qa) \<and> qx ! x = Max (set qx) \<and> qy ! y = Max (set qy)"
proof -
  from choose_action_greedy [OF assms]
  have a: "np_argmax qa = Inr a_idx" "np_argmax qx = Inr x" "np_argmax qy = Inr y" by simp_all
  then have f: "first_argmax qa a_idx" "first_argmax qx x" "first_argmax qy y"
    by (simp_all add: np_argmax_first)
  then have "qa ! a_idx = Max (set qa)" "qx ! x = Max (set qx)" "qy ! y = Max (set qy)"
    by (simp_all add: first_argmax_Max)
  with a f show ?thesis by simp
qed

theorem greedy_choice_is_first_argmax_witness:
  "choose_action example_forward (99 / 100) 0 0 0 example_obs (example_agent\<lparr>steps_done := 8000\<rparr>)
     = Inr (([Some (Select_army ''select'')], 1, 1, 0),
            example_agent\<lparr>epsilon := decayed_epsilon (example_agent\<lparr>steps_done := 8000\<rparr>),
               steps_done := 8001, choice := Some ''greedy''\<rparr>)
   \<and> example_forward (state_dict (store (example_agent\<lparr>steps_done := 8000\<rparr>))
          (net (example_agent\<lparr>steps_done := 8000\<rparr>))) (player_relative example_obs)
        = Inr ([1, 3, 2], [0, 5, 5], [7, 7])
   \<and> first_argmax [1, 3, 2] 1 \<and> first_argmax [0, 5, 5] 1 \<and> first_argmax [7, 7] 0"
proof -
  let ?s = "example_agent\<lparr>steps_done := 8000\<rparr>"
  let ?s' = "example_agent\<lparr>epsilon := decayed_epsilon ?s, steps_done := 8001, choice := Some ''greedy''\<rparr>"
  have c: "choice ?s' = Some ''greedy''" by simp
  have f: "example_forward (state_dict (store ?s) (net ?s)) (player_relative example_obs)
             = Inr ([1, 3, 2], [0, 5, 5], [7, 7])"
    by (simp add: example_forward_def)
  from greedy_choice_is_first_argmax [OF example_greedy c f] example_greedy f
  show ?thesis by simp
qed

text \<open>
  Claim C7, as amended. A decision that \<open>choose_action\<close> completes (of \<open>BaseAgent\<close> in either
  branch, of \<open>CompassAgent\<close>) has called \<open>epsilon_greedy\<close> once: \<open>epsilon\<close> is recomputed from
  the value that \<open>steps_done\<close> had before the call, and \<open>steps_done\<close> is then incremented by
  exactly 1. After \<open>n\<close> completed decisions \<open>steps_done\<close> is its initial value plus \<open>n\<close>,
  whatever the branches.
\<close>

theorem decision_increments_steps_done:
  "(choose_action forward u r_a r_x r_y obs s = Inr (res, s')
      \<longrightarrow> steps_done s' = steps_done s + 1 \<and> epsilon s' = decayed_epsilon s)
   \<and> (compass_choose_action smart agent_mode u' r_a' cs = Inr (cres, cs')
      \<longrightarrow> steps_done cs' = steps_done cs + 1 \<and> epsilon cs' = decayed_epsilon cs)
   \<and> (decisions forward ds s = Inr s'' \<longrightarrow> steps_done s'' = steps_done s + length ds)"
proof (intro conjI impI)
  assume c: "choose_action forward u r_a r_x r_y obs s = Inr (res, s')"
  from choose_action_state [OF c] show "steps_done s' = steps_done s + 1" by simp
  from choose_action_state [OF c] show "epsilon s' = decayed_epsilon s" by simp
next
  assume c: "compass_choose_action smart agent_mode u' r_a' cs = Inr (cres, cs')"
  from compass_choose_action_state [OF c] show "steps_done cs' = steps_done cs + 1" by simp
  from compass_choose_action_state [OF c] show "epsilon cs' = decayed_epsilon cs" by simp
next
  assume "decisions forward ds s = Inr s''"
  then show "steps_done s'' = steps_done s + length ds" by (rule decisions_steps_done)
qed

lemma example_random_after_greedy:
  "choose_action example_forward 0 2 100 3 example_obs
      (example_agent\<lparr>epsilon := decayed_epsilon (example_agent\<lparr>steps_done := 8000\<rparr>),
               steps_done := 8001, choice := Some ''greedy''\<rparr>)
   = Inr (([Some (Move_screen ''now'' 16 3)], 2, 16, 3),
          example_agent\<lparr>epsilon := decayed_epsilon (example_agent\<lparr>steps_done := 8001\<rparr>),
               steps_done := 8002, choice := Some ''random''\<rparr>)"
proof -
  let ?s = "example_agent\<lparr>epsilon := decayed_epsilon (example_agent\<lparr>steps_done := 8000\<rparr>),
               steps_done := 8001, choice := Some ''greedy''\<rparr>"
  have b: "eps_end ?s \<le> decayed_epsilon ?s \<and> decayed_epsilon ?s \<le> eps_start ?s"
    by (rule dec_bounds) (simp_all add: example_agent_fields)
  have d: "eps_decay ?s \<noteq> 0" "0 \<le> decayed_epsilon ?s" "decayed_epsilon ?s \<le> 1"
      "0 < decayed_epsilon ?s" "0 < screen_dim ?s"
    using b by (simp_all add: example_agent_fields)
  have g: "get_action (available_actions example_obs) (SMART_ACTIONS ! 2) 16 3
             = Some (Move_screen ''now'' 16 3)"
    by (simp add: get_action_def can_do_def example_obs_def SMART_ACTIONS_def)
  show ?thesis
    unfolding choose_action_random_eval [OF d(1-3) d(4) d(5)]
    by (simp add: example_agent_fields g)
qed

theorem decision_increments_steps_done_witness:
  "choose_action example_forward (99 / 100) 0 0 0 example_obs (example_agent\<lparr>steps_done := 8000\<rparr>)
     = Inr (([Some (Select_army ''select'')], 1, 1, 0),
            example_agent\<lparr>epsilon := decayed_epsilon (example_agent\<lparr>steps_done := 8000\<rparr>),
               steps_done := 8001, choice := Some ''greedy''\<rparr>)
   \<and> compass_choose_action [''left'', ''up'', ''right'', ''down''] ''learn'' (1 / 2) 2 example_compass
     = Inr (([Some (Move_screen ''now'' 4 0)], 2),
            example_compass\<lparr>epsilon := 1, steps_done := 1, choice := Some ''random''\<rparr>)
   \<and> decisions example_forward [(99 / 100, 0, 0, 0, example_obs), (0, 2, 100, 3, example_obs)]
        (example_agent\<lparr>steps_done := 8000\<rparr>)
     = Inr (example_agent\<lparr>epsilon := decayed_epsilon (example_agent\<lparr>steps_done := 8001\<rparr>),
               steps_done := 8002, choice := Some ''random''\<rparr>)
   \<and> steps_done (example_agent\<lparr>epsilon := decayed_epsilon (example_agent\<lparr>steps_done := 8001\<rparr>),
               steps_done := 8002, choice := Some ''random''\<rparr>)
       = steps_done (example_agent\<lparr>steps_done := 8000\<rparr>) + 2"
proof -
  have c: "compass_choose_action [''left'', ''up'', ''right'', ''down''] ''learn'' (1 / 2) 2 example_compass
     = Inr (([Some (Move_screen ''now'' 4 0)], 2),
            example_compass\<lparr>epsilon := 1, steps_done := 1, choice := Some ''random''\<rparr>)"
    using function_ids_distinct
    by (simp add: compass_choose_action_def epsilon_greedy_def decayed_epsilon_def
        np_random_choice_def np_random_randint_def example_compass_def Let_def
        translate_to_PYSC2_action_def can_do_def)
  have d: "decisions example_forward [(99 / 100, 0, 0, 0, example_obs), (0, 2, 100, 3, example_obs)]
        (example_agent\<lparr>steps_done := 8000\<rparr>)
     = Inr (example_agent\<lparr>epsilon := decayed_epsilon (example_agent\<lparr>steps_done := 8001\<rparr>),
               steps_done := 8002, choice := Some ''random''\<rparr>)"
    by (simp only: decisions.simps example_greedy example_random_after_greedy sum.case prod.case)
  from decision_increments_steps_done
    [of example_forward "99 / 100" 0 0 0 example_obs "example_agent\<lparr>steps_done := 8000\<rparr>"
        _ _ "[''left'', ''up'', ''right'', ''down'']" "''learn''" "1 / 2" 2 example_compass _ _
        "[(99 / 100, 0, 0, 0, example_obs), (0, 2, 100, 3, example_obs)]"]
    example_greedy c d
  show ?thesis by simp
qed

text \<open>
  Claim C7 as stated has \<open>epsilon\<close> recomputed from the updated counter. After the first
  decision of a fresh agent \<open>steps_done\<close> is 1 and \<open>epsilon\<close> is 1, the value of the schedule
  at 0, not its value at 1.
\<close>

theorem epsilon_not_from_updated_counter:
  "choose_action example_forward (1 / 2) 0 0 0 example_obs example_agent
     = Inr (([Some No_op], 0, 0, 0),
            example_agent\<lparr>epsilon := 1, steps_done := 1, choice := Some ''random''\<rparr>)
   \<and> epsilon (example_agent\<lparr>epsilon := 1, steps_done := 1, choice := Some ''random''\<rparr>)
       \<noteq> decayed_epsilon (example_agent\<lparr>epsilon := 1, steps_done := 1, choice := Some ''random''\<rparr>)"
proof -
  have d0: "decayed_epsilon example_agent = 1"
    by (simp add: decayed_epsilon_def example_agent_fields)
  have d: "eps_decay example_agent \<noteq> 0" "0 \<le> decayed_epsilon example_agent"
    "decayed_epsilon example_agent \<le> 1" "1 / 2 < decayed_epsilon example_agent"
    "0 < screen_dim example_agent"
    by (simp_all add: d0 example_agent_fields)
  have g: "get_action (available_actions example_obs) (SMART_ACTIONS ! 0) 0 0 = Some No_op"
    using function_ids_distinct by (simp add: get_action_def can_do_def example_obs_def SMART_ACTIONS_def)
  have 1: "choose_action example_forward (1 / 2) 0 0 0 example_obs example_agent
     = Inr (([Some No_op], 0, 0, 0),
            example_agent\<lparr>epsilon := 1, steps_done := 1, choice := Some ''random''\<rparr>)"
    unfolding choose_action_random_eval [OF d(1-3) d(4) d(5)]
    by (simp add: example_agent_fields g d0)
  have "exp (- (1 / 8000) :: real) < 1" by simp
  then have "(5 / 100 + 95 / 100 * exp (- (1 / 8000)) :: real) < 1" by linarith
  then have 2: "epsilon (example_agent\<lparr>epsilon := 1, steps_done := 1, choice := Some ''random''\<rparr>)
       \<noteq> decayed_epsilon (example_agent\<lparr>epsilon := 1, steps_done := 1, choice := Some ''random''\<rparr>)"
    by (simp add: decayed_epsilon_def example_agent_fields)
  from 1 2 show ?thesis by simp
qed

section \<open>CompassAgent: reward shaping\<close>

lemma hypot_0 [simp]: "hypot 0 0 = 0"
  by (simp add: hypot_def)

lemma hypot_eq_0_iff: "hypot x y = 0 \<longleftrightarrow> x = 0 \<and> y = 0"
  by (simp add: hypot_def sum_power2_eq_zero_iff)

lemma sqrt_25: "sqrt 25 = 5"
  by (rule real_sqrt_unique) simp_all

lemma sqrt_9: "sqrt 9 = 3"
  by (rule real_sqrt_unique) simp_all

lemma round_half_even_of_int [simp]: "round_half_even (of_int k) = of_int k"
  by (simp add: round_half_even_def)

lemma round_half_even_numeral [simp]: "round_half_even (numeral k) = numeral k" "round_half_even 0 = 0"
  "round_half_even 1 = 1"
  using round_half_even_of_int [of "numeral k"] round_half_even_of_int [of 0] round_half_even_of_int [of 1]
  by simp_all

lemma calculate_distance_cases:
  "calculate_distance pr sel =
     (case np_round (np_mean_axis0 (xy_locs (mask_eq pr 3))) of
        Scalar_nan \<Rightarrow> Inl IndexError
      | Center b0 b1 \<Rightarrow>
          (case np_round (np_mean_axis0 (xy_locs (mask_eq sel 1))) of
             Scalar_nan \<Rightarrow> Inr ((b0, b1), (b0, b1), 0)
           | Center m0 m1 \<Rightarrow> Inr ((b0, b1), (m0, m1), hypot (b0 - m0) (b1 - m1))))"
  by (simp add: calculate_distance_def Let_def split: np_mean.splits)

lemma np_round_mean_nan:
  "np_round (np_mean_axis0 locs) = Scalar_nan \<longleftrightarrow> locs = []"
  by (simp add: np_mean_axis0_def)

lemma calculate_distance_fallback:
  assumes "xy_locs (mask_eq sel 1) = []" "xy_locs (mask_eq pr 3) \<noteq> []"
  shows "\<exists>b. calculate_distance pr sel = Inr (b, b, 0)"
proof -
  from assms(2) obtain b0 b1 where "np_round (np_mean_axis0 (xy_locs (mask_eq pr 3))) = Center b0 b1"
    by (cases "np_round (np_mean_axis0 (xy_locs (mask_eq pr 3)))") (simp_all add: np_round_mean_nan)
  moreover from assms(1) have "np_round (np_mean_axis0 (xy_locs (mask_eq sel 1))) = Scalar_nan"
    by (simp add: np_round_mean_nan)
  ultimately show ?thesis by (simp add: calculate_distance_cases)
qed

lemma shaped_reward_of_eval:
  assumes "calculate_distance (player_relative obs) (selected obs) = Inr (b, m, d)"
    and "calculate_distance (player_relative next_obs) (selected next_obs) = Inr (b', m', d')"
  shows "shaped_reward_of obs next_obs s = Inr (if d = 0 then 100 else d - d')"
  using assms
  by (simp add: shaped_reward_of_def prepare_timestep_def store_transition_def reward_shaping_def
      Let_def)

lemma upt_5: "[0..<5] = [0, 1, 2, 3, 4::nat]"
  by (simp add: upt_rec)

lemma upt_4: "[0..<4] = [0, 1, 2, 3::nat]"
  by (simp add: upt_rec)

lemma locs_far: "xy_locs (mask_eq (selected obs_far) 1) = [(3, 4)]"
  by (simp add: obs_far_def xy_locs_def mask_eq_def upt_5 upt_4)

lemma locs_near: "xy_locs (mask_eq (selected obs_near) 1) = [(3, 0)]"
  by (simp add: obs_near_def xy_locs_def mask_eq_def upt_5 upt_4)

lemma locs_unselected: "xy_locs (mask_eq (selected obs_unselected) 1) = []"
  by (simp add: obs_unselected_def xy_locs_def mask_eq_def upt_5 upt_4)

lemma locs_beacon: "xy_locs (mask_eq screen_beacon 3) = [(0, 0)]"
  by (simp add: screen_beacon_def xy_locs_def mask_eq_def upt_5 upt_4)

lemma player_relative_examples [simp]:
  "player_relative obs_far = screen_beacon" "player_relative obs_near = screen_beacon"
  "player_relative obs_unselected = screen_beacon"
  by (simp_all add: obs_far_def obs_near_def obs_unselected_def)

lemma distance_far:
  "calculate_distance (player_relative obs_far) (selected obs_far) = Inr ((0, 0), (3, 4), 5)"
  by (simp add: calculate_distance_cases locs_far locs_beacon np_mean_axis0_def hypot_def sqrt_25)

lemma distance_near:
  "calculate_distance (player_relative obs_near) (selected obs_near) = Inr ((0, 0), (3, 0), 3)"
  by (simp add: calculate_distance_cases locs_near locs_beacon np_mean_axis0_def hypot_def sqrt_9)

lemma distance_unselected:
  "calculate_distance (player_relative obs_unselected) (selected obs_unselected) =
     Inr ((0, 0), (0, 0), 0)"
  by (simp add: calculate_distance_cases locs_unselected locs_beacon np_mean_axis0_def)

text \<open>
  Claim C5. Whenever the current observation has beacon-marine distance \<open>d\<close> and the next
  observation has distance \<open>d_next\<close>, the shaped reward of the transition is \<open>d - d_next\<close>,
  except that it is \<open>100\<close> when \<open>d\<close> equals \<open>0.0\<close>.
\<close>

theorem shaped_reward_is_distance_delta:
  assumes "calculate_distance (player_relative obs) (selected obs) = Inr (b, m, d)"
    and "calculate_distance (player_relative next_obs) (selected next_obs) = Inr (b', m', d')"
  shows "shaped_reward_of obs next_obs s = Inr (if d = 0 then 100 else d - d')"
  using assms by (rule shaped_reward_of_eval)

text \<open>
  A marine at distance \<open>5.0\<close> that moves to distance \<open>3.0\<close> is rewarded \<open>2.0\<close>.
\<close>

theorem shaped_reward_is_distance_delta_witness:
  "calculate_distance (player_relative obs_far) (selected obs_far) = Inr ((0, 0), (3, 4), 5) \<and>
   calculate_distance (player_relative obs_near) (selected obs_near) = Inr ((0, 0), (3, 0), 3) \<and>
   shaped_reward_of obs_far obs_near example_compass = Inr 2"
  using shaped_reward_is_distance_delta [OF distance_far distance_near, of example_compass]
    distance_far distance_near
  by simp

text \<open>
  Claim C6. When no cell of the selected mask is set and the beacon is on the screen,
  \<open>calculate_distance\<close> replaces the undefined marine center by the beacon center and
  returns the distance \<open>0.0\<close>. The shaped reward is then defined but is never zero:
  with the degenerate observation as the next one it is the whole current distance \<open>d\<close>
  (or \<open>100\<close> when \<open>d\<close> is \<open>0.0\<close>), and with the degenerate observation as the current one it
  is \<open>100\<close>.
\<close>

theorem empty_selection_falls_back_to_beacon:
  assumes "xy_locs (mask_eq (selected obs0) 1) = []"
    and "xy_locs (mask_eq (player_relative obs0) 3) \<noteq> []"
    and "calculate_distance (player_relative obs) (selected obs) = Inr (b, m, d)"
  shows "(\<exists>c. calculate_distance (player_relative obs0) (selected obs0) = Inr (c, c, 0)) \<and>
         shaped_reward_of obs obs0 s = Inr (if d = 0 then 100 else d) \<and>
         shaped_reward_of obs0 obs s = Inr 100 \<and>
         shaped_reward_of obs obs0 s \<noteq> Inr 0 \<and>
         shaped_reward_of obs0 obs s \<noteq> Inr 0"
proof -
  from calculate_distance_fallback [OF assms(1,2)] obtain c
    where c: "calculate_distance (player_relative obs0) (selected obs0) = Inr (c, c, 0)" ..
  have r1: "shaped_reward_of obs obs0 s = Inr (if d = 0 then 100 else d)"
    using shaped_reward_of_eval [OF assms(3) c, of s] by simp
  have r2: "shaped_reward_of obs0 obs s = Inr 100"
    using shaped_reward_of_eval [OF c assms(3), of s] by simp
  have "shaped_reward_of obs obs0 s \<noteq> Inr 0"
    unfolding r1 by simp
  moreover have "shaped_reward_of obs0 obs s \<noteq> Inr 0"
    unfolding r2 by simp
  ultimately show ?thesis using c r1 r2 by blast
qed

theorem empty_selection_falls_back_to_beacon_witness:
  "xy_locs (mask_eq (selected obs_unselected) 1) = [] \<and>
   xy_locs (mask_eq (player_relative obs_unselected) 3) = [(0, 0)] \<and>
   calculate_distance (player_relative obs_unselected) (selected obs_unselected) =
     Inr ((0, 0), (0, 0), 0) \<and>
   shaped_reward_of obs_near obs_unselected example_compass = Inr 3 \<and>
   shaped_reward_of obs_unselected obs_near example_compass = Inr 100"
  using empty_selection_falls_back_to_beacon
    [of obs_unselected obs_near "(0, 0)" "(3, 0)" 3 example_compass]
    locs_unselected locs_beacon distance_near distance_unselected
  by simp

text \<open>
  The shaped reward of a transition into an observation without a selected marine is the
  distance covered to the beacon, here \<open>5.0\<close>, not zero.
\<close>

theorem empty_selection_reward_not_zero:
  "xy_locs (mask_eq (selected obs_unselected) 1) = [] \<and>
   shaped_reward_of obs_far obs_unselected example_compass = Inr 5 \<and>
   shaped_reward_of obs_far obs_unselected example_compass \<noteq> Inr 0"
  using shaped_reward_of_eval [OF distance_far distance_unselected, of example_compass]
    locs_unselected
  by simp

end
